theory Spec2Isabelle
  imports Main
begin

chapter \<open>The honeypot's engagement logic\<close>

text \<open>
  A model of the scam scorer, the intelligence extractor, the reply strategist, the
  report dispatch and the per-message orchestration of the honeypot service, each
  function translated from its Python source, followed by the properties of these
  functions that the specification states.
\<close>

section \<open>Text primitives\<close>

text \<open>
  Message texts are Python \<open>str\<close> values; they are modelled as HOL strings.  The character
  classes below are those of Python on ASCII text: \<open>str.lower\<close> maps \<open>A-Z\<close> to \<open>a-z\<close>,
  \<open>\d\<close> is \<open>0-9\<close>, \<open>\w\<close> is a letter, a digit or the underscore, and \<open>\s\<close> (as well as
  \<open>str.strip\<close>) treats the code points 9-13, 28-31 and 32 as white space.  Characters
  outside ASCII are left unchanged by \<open>lower\<close> and belong to none of the classes, so the
  model speaks about ASCII text only.
\<close>

definition code :: "char \<Rightarrow> nat" where
  "code c = of_char c"

definition is_digit :: "char \<Rightarrow> bool" where
  "is_digit c = (48 \<le> code c \<and> code c \<le> 57)"

definition is_upper :: "char \<Rightarrow> bool" where
  "is_upper c = (65 \<le> code c \<and> code c \<le> 90)"

definition is_lower :: "char \<Rightarrow> bool" where
  "is_lower c = (97 \<le> code c \<and> code c \<le> 122)"

definition is_alpha :: "char \<Rightarrow> bool" where
  "is_alpha c = (is_upper c \<or> is_lower c)"

definition is_word :: "char \<Rightarrow> bool" where
  "is_word c = (is_alpha c \<or> is_digit c \<or> c = CHR ''_'')"

definition is_space :: "char \<Rightarrow> bool" where
  "is_space c = ((9 \<le> code c \<and> code c \<le> 13) \<or> (28 \<le> code c \<and> code c \<le> 32))"

definition lower_char :: "char \<Rightarrow> char" where
  "lower_char c = (if is_upper c then char_of (code c + 32) else c)"

definition lower :: "string \<Rightarrow> string" where
  "lower s = map lower_char s"

definition strip :: "string \<Rightarrow> string" where
  "strip s = rev (dropWhile is_space (rev (dropWhile is_space s)))"

fun startswith :: "string \<Rightarrow> string \<Rightarrow> bool" where
  "startswith s [] = True"
| "startswith [] (a # w) = False"
| "startswith (c # s) (a # w) = (c = a \<and> startswith s w)"

text \<open>\<open>contains w s\<close> is Python's \<open>w in s\<close> for strings.\<close>

fun contains :: "string \<Rightarrow> string \<Rightarrow> bool" where
  "contains w [] = (w = [])"
| "contains w (c # cs) = (startswith (c # cs) w \<or> contains w cs)"

text \<open>\<open>any(w in s for w in ws)\<close> and \<open>sum(1 for w in ws if w in s)\<close>.\<close>

definition any_in :: "string list \<Rightarrow> string \<Rightarrow> bool" where
  "any_in ws s = list_ex (\<lambda>w. contains w s) ws"

definition count_in :: "string list \<Rightarrow> string \<Rightarrow> int" where
  "count_in ws s = int (length (filter (\<lambda>w. contains w s) ws))"

text \<open>The slice \<open>xs[-3:]\<close>: the last three entries, or all of them when there are fewer.\<close>

definition last3 :: "'a list \<Rightarrow> 'a list" where
  "last3 xs = drop (length xs - 3) xs"

text \<open>\<open>sep.join(xs)\<close>.\<close>

fun join :: "string \<Rightarrow> string list \<Rightarrow> string" where
  "join sep [] = []"
| "join sep [x] = x"
| "join sep (x # y # ys) = x @ sep @ join sep (y # ys)"

text \<open>\<open>int(s)\<close> on a string of decimal digits.\<close>

definition digit_val :: "char \<Rightarrow> int" where
  "digit_val c = int (code c) - 48"

definition int_of_digits :: "string \<Rightarrow> int" where
  "int_of_digits s = foldl (\<lambda>n c. 10 * n + digit_val c) 0 s"

section \<open>Regular expressions\<close>

text \<open>
  The patterns of the program use character classes, literal characters, greedy counted
  repetition of a class, an optional group, alternation and the word boundary \<open>\b\<close>.
  \<open>ends r (p, s)\<close> lists, in the order in which Python's backtracking matcher tries them,
  the positions at which a match of \<open>r\<close> that starts in front of \<open>s\<close> can end; a position
  is the character just before it (if any) and the text that remains.  The first entry is
  the match \<open>re\<close> reports.
\<close>

datatype rx =
    Chr "char \<Rightarrow> bool"
  | Bnd
  | Many nat "nat option" "char \<Rightarrow> bool"
  | Seq rx rx
  | Alt rx rx
  | Opt rx
  | Eps

type_synonym pos = "char option \<times> string"

definition word_before :: "char option \<Rightarrow> bool" where
  "word_before p = (case p of None \<Rightarrow> False | Some c \<Rightarrow> is_word c)"

definition word_after :: "string \<Rightarrow> bool" where
  "word_after s = (case s of [] \<Rightarrow> False | c # _ \<Rightarrow> is_word c)"

definition after_take :: "char option \<Rightarrow> string \<Rightarrow> nat \<Rightarrow> pos" where
  "after_take p s k = (if k = 0 then p else Some (s ! (k - 1)), drop k s)"

primrec ends :: "rx \<Rightarrow> pos \<Rightarrow> pos list" where
  "ends (Chr f) = (\<lambda>(p, s). case s of [] \<Rightarrow> [] | c # cs \<Rightarrow> if f c then [(Some c, cs)] else [])"
| "ends Bnd = (\<lambda>(p, s). if word_before p \<noteq> word_after s then [(p, s)] else [])"
| "ends (Many lo hi f) =
     (\<lambda>(p, s). let n = length (takeWhile f s);
                    m = (case hi of None \<Rightarrow> n | Some h \<Rightarrow> min h n)
                in map (after_take p s) (rev [lo ..< Suc m]))"
| "ends (Seq a b) = (\<lambda>q. concat (map (ends b) (ends a q)))"
| "ends (Alt a b) = (\<lambda>q. ends a q @ ends b q)"
| "ends (Opt a) = (\<lambda>q. ends a q @ [q])"
| "ends Eps = (\<lambda>q. [q])"

definition seqs :: "rx list \<Rightarrow> rx" where
  "seqs rs = foldr Seq rs Eps"

definition lit :: "string \<Rightarrow> rx" where
  "lit w = seqs (map (\<lambda>c. Chr (\<lambda>d. d = c)) w)"

text \<open>
  \<open>re.search\<close>: is there a position from which the pattern matches.
\<close>

fun search_from :: "rx \<Rightarrow> char option \<Rightarrow> string \<Rightarrow> bool" where
  "search_from r p [] = (ends r (p, []) \<noteq> [])"
| "search_from r p (c # cs) = (ends r (p, c # cs) \<noteq> [] \<or> search_from r (Some c) cs)"

definition re_search :: "rx \<Rightarrow> string \<Rightarrow> bool" where
  "re_search r s = search_from r None s"

text \<open>
  \<open>re.findall\<close> for a pattern without capture groups: scan from the left, report the first
  way to match at the earliest position, continue behind the match.  An empty match moves
  on by one character; none of the patterns below can match the empty string.
\<close>

function findall_from :: "rx \<Rightarrow> char option \<Rightarrow> string \<Rightarrow> string list" where
  "findall_from r p s =
     (case ends r (p, s) of
        [] \<Rightarrow> (case s of [] \<Rightarrow> [] | c # cs \<Rightarrow> findall_from r (Some c) cs)
      | (p', s') # _ \<Rightarrow>
          (let k = length s - length s'
           in if k = 0 then (case s of [] \<Rightarrow> [[]] | c # cs \<Rightarrow> [] # findall_from r (Some c) cs)
              else take k s # findall_from r p' (drop k s)))"
  by pat_completeness auto
termination
  by (relation "measure (\<lambda>(r, p, s). length s)") auto

text \<open>The defining equation unfolds forever, so it is applied by hand only.\<close>

declare findall_from.simps [simp del]

definition findall :: "rx \<Rightarrow> string \<Rightarrow> string list" where
  "findall r s = findall_from r None s"

section \<open>Conversation entries\<close>

text \<open>
  The request's current message has a sender, a text and a time stamp.  An entry of
  \<open>conversationHistory\<close> is a dictionary that the request schema does not constrain, so
  each of its keys may be missing; the values that are present are strings (an integer
  for the time stamp).
\<close>

record message =
  m_sender :: string
  m_text :: string
  m_timestamp :: int

record hist_msg =
  h_sender :: "string option"
  h_text :: "string option"
  h_timestamp :: "int option"

definition as_entry :: "message \<Rightarrow> hist_msg" where
  "as_entry m = \<lparr>h_sender = Some (m_sender m), h_text = Some (m_text m),
                 h_timestamp = Some (m_timestamp m)\<rparr>"

text \<open>\<open>msg.get("text", "")\<close>.\<close>

definition get_text :: "hist_msg \<Rightarrow> string" where
  "get_text m = (case h_text m of None \<Rightarrow> [] | Some t \<Rightarrow> t)"

section \<open>Scam detector (\<open>app/core/scam_detector.py\<close>)\<close>

definition FINANCIAL_KEYWORDS :: "string list" where
  "FINANCIAL_KEYWORDS =
     [''bank'', ''account'', ''upi'', ''payment'', ''transaction'', ''wallet'', ''credit'', ''debit'']"

definition ACTION_KEYWORDS :: "string list" where
  "ACTION_KEYWORDS =
     [''send'', ''verify'', ''click'', ''update'', ''confirm'', ''share'', ''provide'', ''enter'']"

definition SENSITIVE_KEYWORDS :: "string list" where
  "SENSITIVE_KEYWORDS = [''otp'', ''pin'', ''password'', ''cvv'', ''secret'', ''code'']"

definition URGENCY_KEYWORDS :: "string list" where
  "URGENCY_KEYWORDS =
     [''urgent'', ''immediately'', ''now'', ''asap'', ''quickly'', ''today'', ''blocked'',
      ''suspended'', ''freeze'']"

definition THREAT_KEYWORDS :: "string list" where
  "THREAT_KEYWORDS =
     [''block'', ''suspend'', ''freeze'', ''cancel'', ''close'', ''locked'', ''unauthorized'']"

definition ACTION_REQUEST_KEYWORDS :: "string list" where
  "ACTION_REQUEST_KEYWORDS = [''click'', ''download'', ''install'', ''update'', ''renew'']"

definition HESITATION_MARKERS :: "string list" where
  "HESITATION_MARKERS = [''worried'', ''doubt'', ''safe'', ''hesitate'', ''not sure'']"

text \<open>\<open>https?://[^\s]+\<close>\<close>

definition URL_REGEX :: rx where
  "URL_REGEX = seqs [lit ''http'', Opt (lit ''s''), lit ''://'', Many 1 None (\<lambda>c. \<not> is_space c)]"

text \<open>\<open>(@[a-zA-Z0-9-]+\.[a-zA-Z]{2,})\<close>\<close>

definition SUSPICIOUS_DOMAIN_REGEX :: rx where
  "SUSPICIOUS_DOMAIN_REGEX =
     seqs [lit ''@'', Many 1 None (\<lambda>c. is_alpha c \<or> is_digit c \<or> c = CHR ''-''), lit ''.'',
           Many 2 None is_alpha]"

text \<open>
  One round of the loop over the last three history entries in \<open>detect_scam\<close>: every
  entry of the user that shows hesitation adds 2 to the score when the current message
  presses on.
\<close>

definition escalation_step :: "string \<Rightarrow> hist_msg \<Rightarrow> int \<times> string list \<Rightarrow> int \<times> string list" where
  "escalation_step msg msg_obj acc =
     (case acc of (score, reasons) \<Rightarrow>
        if h_sender msg_obj = Some ''user'' \<and> any_in HESITATION_MARKERS (lower (get_text msg_obj))
        then (if any_in (URGENCY_KEYWORDS @ THREAT_KEYWORDS) msg
              then (score + 2, reasons @ [''escalation despite user hesitation''])
              else (score, reasons))
        else (score, reasons))"

definition detect_scam :: "string \<Rightarrow> hist_msg list \<Rightarrow> bool \<times> string list \<times> int" where
  "detect_scam message conversation_history =
     (let msg = lower message;
          score = 0;
          reasons = [];
          financial_matches = count_in FINANCIAL_KEYWORDS msg;
          (score, reasons) =
             (if financial_matches > 0
              then (score + financial_matches, reasons @ [''financial context''])
              else (score, reasons));
          action_matches = count_in ACTION_KEYWORDS msg;
          (score, reasons) =
             (if action_matches > 0
              then (score + action_matches, reasons @ [''action requested''])
              else (score, reasons));
          sensitive_matches = count_in SENSITIVE_KEYWORDS msg;
          (score, reasons) =
             (if sensitive_matches > 0
              then (score + sensitive_matches * 3, reasons @ [''sensitive info request''])
              else (score, reasons));
          urgency_matches = count_in URGENCY_KEYWORDS msg;
          threat_matches = count_in THREAT_KEYWORDS msg;
          (score, reasons) =
             (if urgency_matches > 0
              then (score + urgency_matches * 2, reasons @ [''urgency/threat tactics''])
              else (score, reasons));
          (score, reasons) =
             (if threat_matches > 0
              then (score + threat_matches * 2,
                    if ''urgency/threat tactics'' \<notin> set reasons
                    then reasons @ [''threat language''] else reasons)
              else (score, reasons));
          (score, reasons) =
             (if re_search URL_REGEX msg
              then (score + 3, reasons @ [''external link detected''])
              else (score, reasons));
          (score, reasons) =
             (if re_search SUSPICIOUS_DOMAIN_REGEX msg
              then (score + 2, reasons @ [''suspicious domain''])
              else (score, reasons));
          action_request_matches = count_in ACTION_REQUEST_KEYWORDS msg;
          (score, reasons) =
             (if action_request_matches > 0
              then (score + action_request_matches * 2, reasons @ [''malicious action request''])
              else (score, reasons));
          has_financial = any_in FINANCIAL_KEYWORDS msg;
          has_action = any_in ACTION_KEYWORDS msg;
          has_urgency = any_in URGENCY_KEYWORDS msg;
          (score, reasons) =
             (if has_financial \<and> has_action \<and> has_urgency
              then (score + 5, reasons @ [''classic scam pattern detected''])
              else (score, reasons));
          (score, reasons) =
             (if conversation_history \<noteq> []
              then fold (escalation_step msg) (last3 conversation_history) (score, reasons)
              else (score, reasons))
      in (score \<ge> 4, reasons, score))"

text \<open>The list that \<open>get_scam_details\<close> returns under the key \<open>types\<close>.\<close>

definition get_scam_details :: "string \<Rightarrow> string list" where
  "get_scam_details message =
     (let msg = lower message;
          scam_type = [];
          scam_type = (if any_in [''otp'', ''password'', ''pin'', ''cvv''] msg
                       then scam_type @ [''credential theft''] else scam_type);
          scam_type = (if any_in [''click'', ''download'', ''link''] msg
                       then scam_type @ [''malware distribution''] else scam_type);
          scam_type = (if any_in [''bank'', ''account'', ''upi'', ''payment''] msg
                       then scam_type @ [''financial fraud''] else scam_type);
          scam_type = (if any_in [''verify'', ''confirm'', ''update''] msg
                       then scam_type @ [''phishing''] else scam_type)
      in if scam_type \<noteq> [] then scam_type else [''unknown scam''])"

section \<open>Intelligence extractor (\<open>app/core/extractor.py\<close>)\<close>

text \<open>
  The intelligence dictionary always has the same eight keys, each holding a list of
  strings: a record with one field for each key.  \<open>lookup i k\<close> is \<open>i[k]\<close>.
\<close>

record intelligence =
  bankAccounts :: "string list"
  upiIds :: "string list"
  phishingLinks :: "string list"
  phoneNumbers :: "string list"
  suspiciousKeywords :: "string list"
  emailAddresses :: "string list"
  bitcoinAddresses :: "string list"
  ipAddresses :: "string list"

datatype category =
    BankAccounts | UpiIds | PhishingLinks | PhoneNumbers
  | SuspiciousKeywords | EmailAddresses | BitcoinAddresses | IpAddresses

fun lookup :: "intelligence \<Rightarrow> category \<Rightarrow> string list" where
  "lookup i BankAccounts = bankAccounts i"
| "lookup i UpiIds = upiIds i"
| "lookup i PhishingLinks = phishingLinks i"
| "lookup i PhoneNumbers = phoneNumbers i"
| "lookup i SuspiciousKeywords = suspiciousKeywords i"
| "lookup i EmailAddresses = emailAddresses i"
| "lookup i BitcoinAddresses = bitcoinAddresses i"
| "lookup i IpAddresses = ipAddresses i"

definition empty_intelligence :: intelligence where
  "empty_intelligence =
     \<lparr>bankAccounts = [], upiIds = [], phishingLinks = [], phoneNumbers = [],
      suspiciousKeywords = [], emailAddresses = [], bitcoinAddresses = [], ipAddresses = []\<rparr>"

text \<open>\<open>\b[\w.\-]{2,}@[a-zA-Z]{2,}\b\<close> (the flag \<open>IGNORECASE\<close> adds nothing on ASCII text)\<close>

definition UPI_REGEX :: rx where
  "UPI_REGEX =
     seqs [Bnd, Many 2 None (\<lambda>c. is_word c \<or> c = CHR ''.'' \<or> c = CHR ''-''), lit ''@'',
           Many 2 None is_alpha, Bnd]"

text \<open>\<open>(?:\+91|91|0)?\s*[6-9]\d{9}\<close>\<close>

definition PHONE_REGEX :: rx where
  "PHONE_REGEX =
     seqs [Opt (Alt (lit ''+91'') (Alt (lit ''91'') (lit ''0''))), Many 0 None is_space,
           Chr (\<lambda>c. c \<in> set ''6789''), Many 9 (Some 9) is_digit]"

text \<open>\<open>\b\d{9,18}\b\<close>\<close>

definition BANK_ACCOUNT_REGEX :: rx where
  "BANK_ACCOUNT_REGEX = seqs [Bnd, Many 9 (Some 18) is_digit, Bnd]"

text \<open>\<open>\b[A-Za-z0-9._%+-]+@[A-Za-z0-9.-]+\.[A-Z|a-z]{2,}\b\<close>\<close>

definition EMAIL_REGEX :: rx where
  "EMAIL_REGEX =
     seqs [Bnd, Many 1 None (\<lambda>c. is_alpha c \<or> is_digit c \<or> c \<in> set ''._%+-''), lit ''@'',
           Many 1 None (\<lambda>c. is_alpha c \<or> is_digit c \<or> c \<in> set ''.-''), lit ''.'',
           Many 2 None (\<lambda>c. is_alpha c \<or> c = CHR ''|''), Bnd]"

text \<open>\<open>\b[13][a-km-zA-HJ-NP-Z1-9]{25,34}\b\<close>\<close>

definition BITCOIN_REGEX :: rx where
  "BITCOIN_REGEX =
     seqs [Bnd, Chr (\<lambda>c. c \<in> set ''13''),
           Many 25 (Some 34)
             (\<lambda>c. c \<in> set ''abcdefghijkmnopqrstuvwxyzABCDEFGHJKLMNPQRSTUVWXYZ123456789''),
           Bnd]"

text \<open>\<open>\b(?:\d{1,3}\.){3}\d{1,3}\b\<close>, the group written out three times\<close>

definition IP_ADDRESS_REGEX :: rx where
  "IP_ADDRESS_REGEX =
     seqs [Bnd,
           Many 1 (Some 3) is_digit, lit ''.'',
           Many 1 (Some 3) is_digit, lit ''.'',
           Many 1 (Some 3) is_digit, lit ''.'',
           Many 1 (Some 3) is_digit, Bnd]"

definition SUSPICIOUS_KEYWORDS :: "string list" where
  "SUSPICIOUS_KEYWORDS =
     [''urgent'', ''verify'', ''blocked'', ''suspended'', ''freeze'', ''confirm'',
      ''immediate'', ''claim'', ''update'', ''click'', ''download'', ''authenticate'',
      ''password'', ''otp'', ''pin'', ''cvv'', ''secret'', ''validate'', ''activate'',
      ''renew'', ''expire'', ''unauthorized'', ''secure'', ''protect'', ''danger'',
      ''limited'', ''today'', ''now'', ''asap'', ''hurry'', ''quickly'', ''immediately'']"

definition TRUSTED_DOMAINS :: "string list" where
  "TRUSTED_DOMAINS = [''@gmail.com'', ''@yahoo.com'', ''@outlook.com'']"

text \<open>
  \<open>list(set(...))\<close> keeps one copy of every value in an order that Python does not fix;
  the model keeps the order of \<open>remdups\<close>, and statements about a category speak about
  the set of its entries.
\<close>

definition clean_values :: "string list \<Rightarrow> string list" where
  "clean_values values =
     (let unique_values = remdups (map (\<lambda>v. strip (lower v)) (filter (\<lambda>v. v \<noteq> []) values))
      in filter (\<lambda>v. v \<noteq> []) unique_values)"

definition clean_intelligence :: "intelligence \<Rightarrow> intelligence" where
  "clean_intelligence intel_dict =
     \<lparr>bankAccounts = clean_values (bankAccounts intel_dict),
      upiIds = clean_values (upiIds intel_dict),
      phishingLinks = clean_values (phishingLinks intel_dict),
      phoneNumbers = clean_values (phoneNumbers intel_dict),
      suspiciousKeywords = clean_values (suspiciousKeywords intel_dict),
      emailAddresses = clean_values (emailAddresses intel_dict),
      bitcoinAddresses = clean_values (bitcoinAddresses intel_dict),
      ipAddresses = clean_values (ipAddresses intel_dict)\<rparr>"

text \<open>
  \<open>int(number_str)\<close> inside \<open>try\<close>: a string that is not a number makes the function
  answer \<open>False\<close>.  The extractor passes matches of \<open>\d{9,18}\<close> only, which are strings of
  digits.
\<close>

definition parse_int :: "string \<Rightarrow> int option" where
  "parse_int s = (if s \<noteq> [] \<and> list_all is_digit s then Some (int_of_digits s) else None)"

definition is_likely_timestamp :: "string \<Rightarrow> bool" where
  "is_likely_timestamp number_str =
     (if length number_str > 13 then False
      else (case parse_int number_str of
              None \<Rightarrow> False
            | Some num \<Rightarrow> num > 1000000000))"

text \<open>One round of the loop over \<open>full_conversation\<close>.\<close>

definition conversation_step :: "hist_msg \<Rightarrow> intelligence \<Rightarrow> intelligence" where
  "conversation_step msg intelligence =
     (let msg_text = get_text msg;
          intelligence =
            intelligence\<lparr>upiIds := upiIds intelligence @ findall UPI_REGEX msg_text\<rparr>;
          intelligence =
            intelligence\<lparr>phishingLinks := phishingLinks intelligence @ findall URL_REGEX msg_text\<rparr>;
          intelligence =
            intelligence\<lparr>phoneNumbers := phoneNumbers intelligence @ findall PHONE_REGEX msg_text\<rparr>;
          intelligence =
            intelligence\<lparr>emailAddresses := emailAddresses intelligence @ findall EMAIL_REGEX msg_text\<rparr>
      in intelligence)"

text \<open>
  \<open>full_conversation\<close> is \<open>None\<close> by default; \<open>None\<close> and the empty list both skip the
  loop and are both the empty list here.
\<close>

definition extract_intelligence :: "string \<Rightarrow> hist_msg list \<Rightarrow> intelligence" where
  "extract_intelligence txt full_conversation =
     (let intelligence = empty_intelligence;
          upi_matches = findall UPI_REGEX txt;
          intelligence = intelligence\<lparr>upiIds := upiIds intelligence @ upi_matches\<rparr>;
          link_matches = findall URL_REGEX txt;
          intelligence = intelligence\<lparr>phishingLinks := phishingLinks intelligence @ link_matches\<rparr>;
          phone_matches = findall PHONE_REGEX txt;
          intelligence = intelligence\<lparr>phoneNumbers := phoneNumbers intelligence @ phone_matches\<rparr>;
          account_matches = findall BANK_ACCOUNT_REGEX txt;
          valid_accounts =
             filter (\<lambda>acc. 9 \<le> length acc \<and> length acc \<le> 18 \<and> \<not> is_likely_timestamp acc)
               account_matches;
          intelligence = intelligence\<lparr>bankAccounts := bankAccounts intelligence @ valid_accounts\<rparr>;
          email_matches = findall EMAIL_REGEX txt;
          suspicious_emails =
             filter (\<lambda>e. \<not> any_in TRUSTED_DOMAINS (lower e) \<or> any_in SUSPICIOUS_KEYWORDS (lower txt))
               email_matches;
          intelligence = intelligence\<lparr>emailAddresses := emailAddresses intelligence @ suspicious_emails\<rparr>;
          bitcoin_matches = findall BITCOIN_REGEX txt;
          intelligence = intelligence\<lparr>bitcoinAddresses := bitcoinAddresses intelligence @ bitcoin_matches\<rparr>;
          ip_matches = findall IP_ADDRESS_REGEX txt;
          intelligence = intelligence\<lparr>ipAddresses := ipAddresses intelligence @ ip_matches\<rparr>;
          text_lower = lower txt;
          found_keywords = filter (\<lambda>kw. contains kw text_lower) SUSPICIOUS_KEYWORDS;
          intelligence = intelligence\<lparr>suspiciousKeywords := suspiciousKeywords intelligence @ found_keywords\<rparr>;
          intelligence =
             (if full_conversation \<noteq> []
              then fold conversation_step full_conversation intelligence
              else intelligence)
      in clean_intelligence intelligence)"

section \<open>Reply strategist (\<open>app/core/agent.py\<close>)\<close>

text \<open>The exceptions that the modelled code can raise.\<close>

datatype exn = KeyError | IndexError | CallbackException

definition DEFAULT_TEMPLATES :: "string list" where
  "DEFAULT_TEMPLATES =
     [''Can you explain that more clearly?'',
      ''I didn't understand. Can you rephrase?'',
      ''What exactly are you asking me to do?'',
      ''Can you provide more details?'',
      ''I'm confused about this. Help me understand.'']"

definition RESPONSE_TEMPLATES :: "(string \<times> string list) list" where
  "RESPONSE_TEMPLATES =
     [(''upi'',
         [''I'm not sure what UPI is, can you explain?'',
          ''Is it safe to share my UPI ID? I'm worried about security.'',
          ''Can you tell me why you need my UPI ID?'']),
      (''otp'',
         [''Is it safe to share OTP? What will you use it for?'',
          ''Why do you need my OTP? I've heard it's dangerous.'',
          ''Can someone misuse my OTP if I share it?'']),
      (''password'',
         [''Should I really share my password? That sounds risky.'',
          ''Why do you need access to my account password?'',
          ''I don't think it's safe to share passwords. Right?'']),
      (''cvv'',
         [''You're asking for my CVV? That's the security code, right?'',
          ''Is it safe to share CVV over message? I'm concerned.'',
          ''Why would you need my CVV to verify my account?'']),
      (''link'',
         [''Can you explain what this link is for?'',
          ''Is this link safe to click? Where does it take me?'',
          ''Why should I click on this? What happens next?'']),
      (''download'',
         [''Is it safe to download that? What does it do?'',
          ''Why do I need to download an app to verify my account?'',
          ''Can you explain what this download is for?'']),
      (''verify'',
         [''How will the verification process work?'',
          ''What happens after I verify? Is my account safe?'',
          ''Can you explain this verification process?'']),
      (''account_blocked'',
         [''Why is my account blocked? What did I do?'',
          ''When will my account be unblocked? How long does it take?'',
          ''Is there another way to resolve this without verification?'']),
      (''urgent'',
         [''Why is this so urgent? What happens if I don't act now?'',
          ''How much time do I have to respond?'',
          ''Is this really an emergency? Can it wait?'']),
      (''default'', DEFAULT_TEMPLATES)]"

text \<open>The dictionary of flags, in the order in which its keys are inserted.\<close>

definition analyze_message_context :: "string \<Rightarrow> hist_msg list \<Rightarrow> (string \<times> bool) list" where
  "analyze_message_context message conversation_history =
     (let msg_lower = lower message
      in [(''upi'', contains ''upi'' msg_lower),
          (''otp'', contains ''otp'' msg_lower),
          (''password'', contains ''password'' msg_lower),
          (''cvv'', contains ''cvv'' msg_lower),
          (''link'', contains ''link'' msg_lower \<or> contains ''click'' msg_lower
                       \<or> contains ''http'' msg_lower),
          (''download'', contains ''download'' msg_lower \<or> contains ''install'' msg_lower),
          (''verify'', contains ''verify'' msg_lower),
          (''account_blocked'', any_in [''block'', ''suspended'', ''locked'', ''freeze''] msg_lower),
          (''urgent'', any_in [''urgent'', ''immediately'', ''now'', ''asap'', ''today''] msg_lower)])"

text \<open>The loop that picks the category: the first flag that is set, \<open>break\<close>.\<close>

fun pick_category :: "(string \<times> bool) list \<Rightarrow> string \<Rightarrow> string" where
  "pick_category [] reply_category = reply_category"
| "pick_category ((category, detected) # rest) reply_category =
     (if detected \<and> category \<noteq> ''default'' then category
      else pick_category rest reply_category)"

text \<open>The loop that picks the template: the first one not among the recent replies.\<close>

fun pick_template :: "string list \<Rightarrow> string list \<Rightarrow> string option" where
  "pick_template [] recent = None"
| "pick_template (template # rest) recent =
     (if template \<notin> set recent then Some template else pick_template rest recent)"

text \<open>\<open>not selected_reply\<close> holds for \<open>None\<close> and for the empty string.\<close>

definition get_agent_reply :: "string \<Rightarrow> hist_msg list \<Rightarrow> string list \<Rightarrow> exn + string" where
  "get_agent_reply current_message conversation_history previous_replies =
     (let context = analyze_message_context current_message conversation_history;
          reply_category = pick_category context ''default'';
          templates = (case map_of RESPONSE_TEMPLATES reply_category of
                         Some ts \<Rightarrow> ts
                       | None \<Rightarrow> DEFAULT_TEMPLATES);
          selected_reply = pick_template templates (last3 previous_replies)
      in case selected_reply of
           Some r \<Rightarrow> (if r \<noteq> [] then Inr r
                      else (case templates of [] \<Rightarrow> Inl IndexError | t # _ \<Rightarrow> Inr t))
         | None \<Rightarrow> (case templates of [] \<Rightarrow> Inl IndexError | t # _ \<Rightarrow> Inr t))"

text \<open>The search, from the end of the history, for the last entry sent by the scammer.\<close>

definition last_scammer :: "hist_msg list \<Rightarrow> hist_msg option" where
  "last_scammer conversation_history =
     find (\<lambda>msg. h_sender msg = Some ''scammer'') (rev conversation_history)"

text \<open>
  \<open>[msg["text"] for msg in conversation_history if msg.get("sender") == sender]\<close>: an
  entry of that sender without a text raises \<open>KeyError\<close>.
\<close>

fun texts_of :: "string \<Rightarrow> hist_msg list \<Rightarrow> exn + string list" where
  "texts_of sender [] = Inr []"
| "texts_of sender (msg # rest) =
     (if h_sender msg = Some sender
      then (case h_text msg of
              None \<Rightarrow> Inl KeyError
            | Some t \<Rightarrow> (case texts_of sender rest of Inl e \<Rightarrow> Inl e | Inr ts \<Rightarrow> Inr (t # ts)))
      else texts_of sender rest)"

definition generate_agent_reply :: "hist_msg list \<Rightarrow> exn + string" where
  "generate_agent_reply conversation_history =
     (if conversation_history = [] then Inr ''Why is my account being blocked?''
      else (case last_scammer conversation_history of
              None \<Rightarrow> Inr ''Can you explain that more clearly?''
            | Some last_scammer_msg \<Rightarrow>
                (case texts_of ''user'' conversation_history of
                   Inl e \<Rightarrow> Inl e
                 | Inr previous_replies \<Rightarrow>
                     (case h_text last_scammer_msg of
                        None \<Rightarrow> Inl KeyError
                      | Some t \<Rightarrow> get_agent_reply t conversation_history previous_replies))))"

definition should_continue_engagement :: "hist_msg list \<Rightarrow> nat \<Rightarrow> int \<Rightarrow> bool" where
  "should_continue_engagement conversation_history message_count max_messages =
     (if int message_count \<ge> max_messages then False else True)"

definition generate_agent_notes :: "hist_msg list \<Rightarrow> intelligence \<Rightarrow> exn + string" where
  "generate_agent_notes conversation_history extracted_intelligence =
     (case texts_of ''scammer'' conversation_history of
        Inl e \<Rightarrow> Inl e
      | Inr scammer_texts \<Rightarrow>
          (let tactics = [];
               scammer_messages = map lower scammer_texts;
               full_text = join '' '' scammer_messages;
               tactics = (if any_in [''urgent'', ''immediately'', ''now'', ''asap''] full_text
                          then tactics @ [''urgency pressure''] else tactics);
               tactics = (if any_in [''blocked'', ''suspended'', ''freeze'', ''locked''] full_text
                          then tactics @ [''threat/coercion''] else tactics);
               tactics = (if any_in [''verify'', ''confirm'', ''authenticate''] full_text
                          then tactics @ [''credential phishing''] else tactics);
               tactics = (if any_in [''upi'', ''payment'', ''transaction''] full_text
                          then tactics @ [''financial exploitation''] else tactics);
               tactics = (if phishingLinks extracted_intelligence \<noteq> []
                          then tactics @ [''malware distribution''] else tactics);
               tactics = (if bankAccounts extracted_intelligence \<noteq> []
                          then tactics @ [''account compromise''] else tactics);
               tactics = (if tactics = [] then tactics @ [''social engineering''] else tactics);
               notes = ''Scammer employed: '' @ join '', '' tactics @ ''. '';
               notes = (if upiIds extracted_intelligence \<noteq> []
                        then notes @ ''Requested UPI ID sharing. '' else notes);
               notes = (if bankAccounts extracted_intelligence \<noteq> []
                        then notes @ ''Asked for bank details. '' else notes);
               notes = (if phishingLinks extracted_intelligence \<noteq> []
                        then notes @ ''Provided suspicious links. '' else notes);
               notes = notes @ ''Attempted to establish false trust and urgency throughout conversation.''
           in Inr notes))"

section \<open>Report dispatch (\<open>app/services/guvi_callback.py\<close>)\<close>

text \<open>
  What the evaluation endpoint does with the POST request is an input of the model: it
  answers with a status code, or the request times out, cannot connect, or fails otherwise.
\<close>

datatype http_outcome = Responded nat | TimedOut | ConnectionFailed | OtherFailure

record final_result =
  fr_sessionId :: string
  fr_scamDetected :: bool
  fr_totalMessagesExchanged :: nat
  fr_bankAccounts :: "string list"
  fr_upiIds :: "string list"
  fr_phishingLinks :: "string list"
  fr_phoneNumbers :: "string list"
  fr_suspiciousKeywords :: "string list"
  fr_agentNotes :: string

definition final_payload :: "string \<Rightarrow> intelligence \<Rightarrow> nat \<Rightarrow> string \<Rightarrow> bool \<Rightarrow> final_result" where
  "final_payload session_id intel total_messages agent_notes scam_detected =
     \<lparr>fr_sessionId = session_id,
      fr_scamDetected = scam_detected,
      fr_totalMessagesExchanged = total_messages,
      fr_bankAccounts = bankAccounts intel,
      fr_upiIds = upiIds intel,
      fr_phishingLinks = phishingLinks intel,
      fr_phoneNumbers = phoneNumbers intel,
      fr_suspiciousKeywords = suspiciousKeywords intel,
      fr_agentNotes = (if agent_notes \<noteq> [] then agent_notes
                       else ''Scammer attempted fraud through social engineering.'')\<rparr>"

text \<open>
  \<open>send_final_result\<close> posts the payload once.  Status 200 gives \<open>True\<close>, another status
  \<open>False\<close>; a time-out, a connection error and any other failure raise
  \<open>CallbackException\<close>.
\<close>

definition send_final_result ::
  "string \<Rightarrow> intelligence \<Rightarrow> nat \<Rightarrow> string \<Rightarrow> bool \<Rightarrow> http_outcome \<Rightarrow> exn + bool" where
  "send_final_result session_id intel total_messages agent_notes scam_detected outcome =
     (case outcome of
        Responded status_code \<Rightarrow> (if status_code = 200 then Inr True else Inr False)
      | TimedOut \<Rightarrow> Inl CallbackException
      | ConnectionFailed \<Rightarrow> Inl CallbackException
      | OtherFailure \<Rightarrow> Inl CallbackException)"

section \<open>Sessions and the orchestrator (\<open>app/api/routes.py\<close>, \<open>app/utils/config.py\<close>)\<close>

record settings =
  API_KEY :: string
  SCAM_SCORE_THRESHOLD :: int
  MIN_MESSAGES_BEFORE_CALLBACK :: int
  MAX_MESSAGES_PER_SESSION :: int
  SESSION_TIMEOUT_MINUTES :: int

text \<open>
  The defaults of \<open>Settings\<close>; each can be replaced through the environment.  No decision
  of the code reads \<open>SCAM_SCORE_THRESHOLD\<close> (the scorer compares the score with the literal
  4) or \<open>MIN_MESSAGES_BEFORE_CALLBACK\<close> (its branch in \<open>analyze_message\<close> is \<open>pass\<close>).
\<close>

definition default_settings :: settings where
  "default_settings =
     \<lparr>API_KEY = ''your-secret-api-key-change-in-production'',
      SCAM_SCORE_THRESHOLD = 4,
      MIN_MESSAGES_BEFORE_CALLBACK = 3,
      MAX_MESSAGES_PER_SESSION = 20,
      SESSION_TIMEOUT_MINUTES = 30\<rparr>"

record detection =
  d_score :: int
  d_reasons :: "string list"
  d_message_index :: nat
  d_scam_types :: "string list"

text \<open>
  A session of \<open>SESSION_STORE\<close>.  \<open>detection_details\<close> starts as the empty dictionary
  (\<open>None\<close>).  Times are seconds on the clock of the process.
\<close>

record session =
  messages :: "message list"
  intelligence :: intelligence
  agent_replies :: "string list"
  scam_detected :: bool
  detection_details :: "detection option"
  created_at :: int
  last_activity :: int
  engagement_concluded :: bool
  scam_score :: int

record payload =
  sessionId :: string
  message :: message
  conversationHistory :: "hist_msg list"

record agent_reply_model =
  status :: string
  reply :: "string option"

datatype http_error = HTTP_401_UNAUTHORIZED | HTTP_403_FORBIDDEN | HTTP_500_INTERNAL_SERVER_ERROR

definition authenticate_request :: "settings \<Rightarrow> string option \<Rightarrow> http_error + bool" where
  "authenticate_request cfg x_api_key =
     (case x_api_key of
        None \<Rightarrow> Inl HTTP_401_UNAUTHORIZED
      | Some k \<Rightarrow>
          if k = [] then Inl HTTP_401_UNAUTHORIZED
          else if k \<noteq> API_KEY cfg then Inl HTTP_403_FORBIDDEN
          else Inr True)"

definition initialize_session :: "int \<Rightarrow> session" where
  "initialize_session now =
     \<lparr>messages = [],
      intelligence = empty_intelligence,
      agent_replies = [],
      scam_detected = False,
      detection_details = None,
      created_at = now,
      last_activity = now,
      engagement_concluded = False,
      scam_score = 0\<rparr>"

type_synonym session_store = "string \<rightharpoonup> session"

definition get_or_create_session :: "int \<Rightarrow> session_store \<Rightarrow> string \<Rightarrow> session" where
  "get_or_create_session now store session_id =
     (case store session_id of
        None \<Rightarrow> initialize_session now
      | Some s \<Rightarrow> s\<lparr>last_activity := now\<rparr>)"

definition cleanup_old_sessions :: "settings \<Rightarrow> int \<Rightarrow> session_store \<Rightarrow> session_store" where
  "cleanup_old_sessions cfg current_time store =
     (\<lambda>sid. case store sid of
               None \<Rightarrow> None
             | Some d \<Rightarrow>
                 if current_time - last_activity d > SESSION_TIMEOUT_MINUTES cfg * 60
                 then None else Some d)"

text \<open>
  The merge loop of \<open>analyze_message\<close>: under every key the new values are appended and
  the list is rebuilt from its set.
\<close>

definition merge_values :: "string list \<Rightarrow> string list \<Rightarrow> string list" where
  "merge_values old new = remdups (old @ new)"

definition merge_intelligence :: "intelligence \<Rightarrow> intelligence \<Rightarrow> intelligence" where
  "merge_intelligence session_intelligence new_intelligence =
     \<lparr>bankAccounts =
        merge_values (bankAccounts session_intelligence) (bankAccounts new_intelligence),
      upiIds = merge_values (upiIds session_intelligence) (upiIds new_intelligence),
      phishingLinks =
        merge_values (phishingLinks session_intelligence) (phishingLinks new_intelligence),
      phoneNumbers =
        merge_values (phoneNumbers session_intelligence) (phoneNumbers new_intelligence),
      suspiciousKeywords =
        merge_values (suspiciousKeywords session_intelligence) (suspiciousKeywords new_intelligence),
      emailAddresses =
        merge_values (emailAddresses session_intelligence) (emailAddresses new_intelligence),
      bitcoinAddresses =
        merge_values (bitcoinAddresses session_intelligence) (bitcoinAddresses new_intelligence),
      ipAddresses =
        merge_values (ipAddresses session_intelligence) (ipAddresses new_intelligence)\<rparr>"

text \<open>
  \<open>process_message\<close> is the body of \<open>analyze_message\<close> from the point where the session has
  been fetched.  It returns the reply model or the exception that escapes, the session as
  the code leaves it (assignments made before an exception stay), and the payloads of the
  dispatch attempts of the turn, that is, of its calls of \<open>send_final_result\<close>.
\<close>

definition process_message ::
  "settings \<Rightarrow> session \<Rightarrow> payload \<Rightarrow> http_outcome
     \<Rightarrow> (exn + agent_reply_model) \<times> session \<times> final_result list" where
  "process_message cfg session0 pl outcome =
     (let session_id = sessionId pl;
          message_text = m_text (message pl);
          sender = m_sender (message pl);
          conversation_history = conversationHistory pl;
          session = session0\<lparr>messages := messages session0 @ [message pl]\<rparr>;
          total_messages = length (messages session);
          (is_scam, reasons, score) = detect_scam message_text conversation_history;
          session = session\<lparr>scam_score := max (scam_score session) score\<rparr>
      in if \<not> is_scam then (Inr \<lparr>status = ''ignored'', reply = None\<rparr>, session, [])
         else
           (let session =
                  (if \<not> scam_detected session
                   then session\<lparr>scam_detected := True,
                                detection_details :=
                                  Some \<lparr>d_score = score, d_reasons = reasons,
                                        d_message_index = total_messages,
                                        d_scam_types = get_scam_details message_text\<rparr>\<rparr>
                   else session);
                full_conversation = conversation_history @ [as_entry (message pl)];
                new_intelligence = extract_intelligence message_text full_conversation;
                session = session\<lparr>intelligence :=
                                     merge_intelligence (intelligence session) new_intelligence\<rparr>
            in case generate_agent_reply conversation_history of
                 Inl e \<Rightarrow> (Inl e, session, [])
               | Inr agent_reply \<Rightarrow>
                   (let session = session\<lparr>agent_replies := agent_replies session @ [agent_reply]\<rparr>;
                        should_continue =
                          should_continue_engagement full_conversation total_messages
                            (MAX_MESSAGES_PER_SESSION cfg);
                        answer = \<lparr>status = ''success'', reply = Some agent_reply\<rparr>
                    in if \<not> should_continue \<and> \<not> engagement_concluded session
                       then (case generate_agent_notes full_conversation (intelligence session) of
                               Inl e \<Rightarrow> (Inl e, session, [])
                             | Inr agent_notes \<Rightarrow>
                                 (let sent = [final_payload session_id (intelligence session)
                                                total_messages agent_notes True]
                                  in case send_final_result session_id (intelligence session)
                                            total_messages agent_notes True outcome of
                                       Inr success \<Rightarrow>
                                         (Inr answer,
                                          if success then session\<lparr>engagement_concluded := True\<rparr>
                                          else session,
                                          sent)
                                     | Inl e \<Rightarrow> (Inr answer, session, sent)))
                       else (Inr answer, session, []))))"

text \<open>
  The request handler: authentication, the sweep of idle sessions, the turn itself.  An
  exception that is not an HTTP error becomes status 500; the session keeps what the turn
  had written.
\<close>

definition analyze_message ::
  "settings \<Rightarrow> int \<Rightarrow> session_store \<Rightarrow> string option \<Rightarrow> payload \<Rightarrow> http_outcome
     \<Rightarrow> (http_error + agent_reply_model) \<times> session_store \<times> final_result list" where
  "analyze_message cfg now store x_api_key pl outcome =
     (case authenticate_request cfg x_api_key of
        Inl e \<Rightarrow> (Inl e, store, [])
      | Inr _ \<Rightarrow>
          (let store = cleanup_old_sessions cfg now store;
               session = get_or_create_session now store (sessionId pl);
               (result, session, sent) = process_message cfg session pl outcome;
               store = store(sessionId pl \<mapsto> session)
           in (case result of
                 Inl e \<Rightarrow> (Inl HTTP_500_INTERNAL_SERVER_ERROR, store, sent)
               | Inr answer \<Rightarrow> (Inr answer, store, sent))))"

text \<open>A session's life as a sequence of turns: each turn brings a request and the outcome
  the endpoint would give to a dispatch made in that turn.\<close>

fun run :: "settings \<Rightarrow> session \<Rightarrow> (payload \<times> http_outcome) list \<Rightarrow> session" where
  "run cfg s [] = s"
| "run cfg s ((pl, outcome) # rest) = run cfg (fst (snd (process_message cfg s pl outcome))) rest"

section \<open>Notions used in the statements\<close>

text \<open>The three parts of what a turn returns.\<close>

abbreviation result_of :: "'a \<times> 'b \<times> 'c \<Rightarrow> 'a" where
  "result_of r \<equiv> fst r"

abbreviation session_of :: "'a \<times> 'b \<times> 'c \<Rightarrow> 'b" where
  "session_of r \<equiv> fst (snd r)"

abbreviation sent_of :: "'a \<times> 'b \<times> 'c \<Rightarrow> 'c" where
  "sent_of r \<equiv> snd (snd r)"

text \<open>What the scorer says about the message of a request.\<close>

definition turn_is_scam :: "payload \<Rightarrow> bool" where
  "turn_is_scam pl = fst (detect_scam (m_text (message pl)) (conversationHistory pl))"

definition turn_reasons :: "payload \<Rightarrow> string list" where
  "turn_reasons pl = fst (snd (detect_scam (m_text (message pl)) (conversationHistory pl)))"

definition turn_score :: "payload \<Rightarrow> int" where
  "turn_score pl = snd (snd (detect_scam (m_text (message pl)) (conversationHistory pl)))"

text \<open>
  The detection details that a request writes when it is the \<open>n\<close>-th message of its
  session, and the details of the first request of a sequence that is scored as a scam,
  for a session that already holds \<open>n\<close> messages.
\<close>

definition snapshot :: "nat \<Rightarrow> payload \<Rightarrow> detection" where
  "snapshot n pl =
     \<lparr>d_score = turn_score pl, d_reasons = turn_reasons pl, d_message_index = n,
      d_scam_types = get_scam_details (m_text (message pl))\<rparr>"

fun first_detection :: "nat \<Rightarrow> payload list \<Rightarrow> detection option" where
  "first_detection n [] = None"
| "first_detection n (pl # rest) =
     (if turn_is_scam pl then Some (snapshot (Suc n) pl) else first_detection (Suc n) rest)"



text \<open>A request of the scammer, for the examples.\<close>

definition scammer_says :: "string \<Rightarrow> hist_msg list \<Rightarrow> payload" where
  "scammer_says txt hist =
     \<lparr>sessionId = ''session-1'',
      message = \<lparr>m_sender = ''scammer'', m_text = txt, m_timestamp = 0\<rparr>,
      conversationHistory = hist\<rparr>"

definition entry :: "string \<Rightarrow> string \<Rightarrow> hist_msg" where
  "entry who txt = \<lparr>h_sender = Some who, h_text = Some txt, h_timestamp = Some 0\<rparr>"

subsection \<open>The reply strategist as the specification words it\<close>

text \<open>
  The specification describes the strategist by a table of tactic markers that is scanned
  in its order of declaration, and by the first template of the category that is not
  among the last three replies, with the first template as the fallback.
\<close>

definition TACTIC_MARKERS :: "(string \<times> string list) list" where
  "TACTIC_MARKERS =
     [(''upi'', [''upi'']),
      (''otp'', [''otp'']),
      (''password'', [''password'']),
      (''cvv'', [''cvv'']),
      (''link'', [''link'', ''click'', ''http'']),
      (''download'', [''download'', ''install'']),
      (''verify'', [''verify'']),
      (''account_blocked'', [''block'', ''suspended'', ''locked'', ''freeze'']),
      (''urgent'', [''urgent'', ''immediately'', ''now'', ''asap'', ''today''])]"

definition tactic_category :: "string \<Rightarrow> string" where
  "tactic_category current_message =
     (case find (\<lambda>(category, markers). any_in markers (lower current_message)) TACTIC_MARKERS of
        None \<Rightarrow> ''default''
      | Some (category, markers) \<Rightarrow> category)"

definition templates_of :: "string \<Rightarrow> string list" where
  "templates_of category =
     (case map_of RESPONSE_TEMPLATES category of None \<Rightarrow> [] | Some ts \<Rightarrow> ts)"

definition select_reply :: "string \<Rightarrow> string list \<Rightarrow> string" where
  "select_reply current_message recent_own_replies =
     (let templates = templates_of (tactic_category current_message)
      in case find (\<lambda>t. t \<notin> set (last3 recent_own_replies)) templates of
           Some t \<Rightarrow> t
         | None \<Rightarrow> hd templates)"

subsection \<open>Messages of the repository's own multi-turn test\<close>

text \<open>
  The three messages that \<open>test_multi_turn\<close> of \<open>test_api.py\<close> sends into one session;
  each request carries the earlier messages as its history.
\<close>

definition multi_turn_first :: string where
  "multi_turn_first =
     ''Your bank account has suspicious activity. Click to verify: http://verify.com''"

definition multi_turn_second :: string where
  "multi_turn_second = ''To confirm your identity, share your 16-digit card number and CVV''"

definition multi_turn_third :: string where
  "multi_turn_third = ''Also provide your UPI ID (yourname@upi) for faster verification''"

definition multi_turn_opening :: "(payload \<times> http_outcome) list" where
  "multi_turn_opening =
     [(scammer_says multi_turn_first [], Responded 200),
      (scammer_says multi_turn_second [entry ''scammer'' multi_turn_first], Responded 200)]"

definition multi_turn_last :: payload where
  "multi_turn_last =
     scammer_says multi_turn_third
       [entry ''scammer'' multi_turn_first, entry ''scammer'' multi_turn_second]"

section \<open>Properties\<close>

subsection \<open>The scorer\<close>

lemma verdict_Let:
  "(\<And>x. fst (f x) = (4 \<le> snd (snd (f x)))) \<Longrightarrow> fst (Let a f) = (4 \<le> snd (snd (Let a f)))"
  by simp

lemma verdict_prod:
  "(\<And>a b. fst (f a b) = (4 \<le> snd (snd (f a b))))
     \<Longrightarrow> fst (case_prod f p) = (4 \<le> snd (snd (case_prod f p)))"
  by (cases p) simp

lemma detect_scam_verdict: "fst (detect_scam txt hist) = (4 \<le> snd (snd (detect_scam txt hist)))"
  unfolding detect_scam_def
  by (intro verdict_Let verdict_prod) simp

lemma turn_is_scam_iff: "turn_is_scam pl = (4 \<le> turn_score pl)"
  by (simp add: turn_is_scam_def turn_score_def detect_scam_verdict)

lemma detect_scam_bank_message:
  "detect_scam ''Your bank account will be blocked. Verify immediately at https://bank-verify.com'' []
     = (True,
        [''financial context'', ''action requested'', ''urgency/threat tactics'',
         ''external link detected'', ''classic scam pattern detected''],
        19)"
  by code_simp

lemma detect_scam_bus_message:
  "detect_scam ''Hi, can you help with bus directions?'' [] = (False, [], 0)"
  by code_simp

text \<open>
  C7.  The scorer's verdict is \<open>score \<ge> 4\<close> for every message and history.  The bank
  message of the specification is scored 19 with the reasons listed, among them
  "financial context", "urgency/threat tactics" and "external link detected", so it is a
  scam; the bus message is scored 0 and is not.
\<close>

theorem scorer_verdict_and_examples:
  "fst (detect_scam txt hist) = (4 \<le> snd (snd (detect_scam txt hist)))
   \<and> fst (detect_scam ''Your bank account will be blocked. Verify immediately at https://bank-verify.com'' [])
   \<and> 4 \<le> snd (snd (detect_scam ''Your bank account will be blocked. Verify immediately at https://bank-verify.com'' []))
   \<and> {''financial context'', ''urgency/threat tactics'', ''external link detected''}
        \<subseteq> set (fst (snd (detect_scam ''Your bank account will be blocked. Verify immediately at https://bank-verify.com'' [])))
   \<and> \<not> fst (detect_scam ''Hi, can you help with bus directions?'' [])"
  by (simp add: detect_scam_verdict detect_scam_bank_message detect_scam_bus_message)

subsection \<open>The reply strategist\<close>

lemma find_in_set: "find P xs = Some x \<Longrightarrow> x \<in> set xs"
  by (induction xs) (auto split: if_splits)

lemma pick_template_find: "pick_template ts recent = find (\<lambda>t. t \<notin> set recent) ts"
  by (induction ts) auto

lemma pick_category_tactic:
  "pick_category (analyze_message_context m h) ''default'' = tactic_category m"
  by (simp add: analyze_message_context_def tactic_category_def TACTIC_MARKERS_def any_in_def Let_def)

lemma tactic_category_names:
  "tactic_category m \<in> set (''default'' # map fst TACTIC_MARKERS)"
proof (cases "find (\<lambda>(category, markers). any_in markers (lower m)) TACTIC_MARKERS")
  case None
  then show ?thesis by (simp add: tactic_category_def)
next
  case (Some a)
  then have "a \<in> set TACTIC_MARKERS" by (rule find_in_set)
  then have "fst a \<in> set (map fst TACTIC_MARKERS)" by simp
  moreover from Some have "tactic_category m = fst a"
    by (simp add: tactic_category_def split_beta)
  ultimately show ?thesis by simp
qed

lemma all_templates_fine:
  "list_all (\<lambda>c. templates_of c \<noteq> [] \<and> list_all (\<lambda>t. t \<noteq> []) (templates_of c))
     (''default'' # map fst TACTIC_MARKERS)"
  by code_simp

lemma templates_nonempty:
  "templates_of (tactic_category m) \<noteq> [] \<and> [] \<notin> set (templates_of (tactic_category m))"
proof -
  have "\<forall>c \<in> set (''default'' # map fst TACTIC_MARKERS).
          templates_of c \<noteq> [] \<and> (\<forall>t \<in> set (templates_of c). t \<noteq> [])"
    using all_templates_fine unfolding list_all_iff .
  with tactic_category_names[of m] show ?thesis by blast
qed

lemma get_agent_reply_select:
  "get_agent_reply m h recent = Inr (select_reply m recent)"
proof -
  let ?c = "tactic_category m"
  let ?ts = "templates_of ?c"
  from templates_nonempty[of m] have ne: "?ts \<noteq> []" and nb: "[] \<notin> set ?ts" by simp_all
  from ne have tab: "(case map_of RESPONSE_TEMPLATES ?c of Some ts \<Rightarrow> ts | None \<Rightarrow> DEFAULT_TEMPLATES) = ?ts"
    by (auto simp: templates_of_def split: option.splits)
  show ?thesis
  proof (cases "find (\<lambda>t. t \<notin> set (last3 recent)) ?ts")
    case None
    with ne tab show ?thesis
      by (cases ?ts)
         (simp_all add: get_agent_reply_def select_reply_def pick_category_tactic pick_template_find Let_def)
  next
    case (Some r)
    then have "r \<in> set ?ts" by (rule find_in_set)
    with nb have "r \<noteq> []" by auto
    with Some tab show ?thesis
      by (simp add: get_agent_reply_def select_reply_def pick_category_tactic pick_template_find Let_def)
  qed
qed

lemma select_reply_in_templates:
  "select_reply m recent \<in> set (templates_of (tactic_category m))"
proof (cases "find (\<lambda>t. t \<notin> set (last3 recent)) (templates_of (tactic_category m))")
  case None
  with templates_nonempty[of m] show ?thesis by (simp add: select_reply_def)
next
  case (Some r)
  then have "r \<in> set (templates_of (tactic_category m))" by (rule find_in_set)
  with Some show ?thesis by (simp add: select_reply_def)
qed

text \<open>
  C8.  For every message, history and list of own replies the strategist returns a reply
  and never raises: the category is the first entry of the marker table, in its order of
  declaration, one of whose markers occurs in the message (\<open>default\<close> when none does), and
  the reply is the first template of that category that is not among the last three own
  replies, or the category's first template when all of them are.
\<close>

theorem strategist_follows_specification:
  "get_agent_reply current_message hist recent_own_replies
     = Inr (select_reply current_message recent_own_replies)
   \<and> pick_category (analyze_message_context current_message hist) ''default''
       = tactic_category current_message
   \<and> select_reply current_message recent_own_replies
       \<in> set (templates_of (tactic_category current_message))"
  by (simp add: get_agent_reply_select pick_category_tactic select_reply_in_templates)

theorem strategist_follows_specification_witness:
  "get_agent_reply ''Send the OTP'' []
      [''Is it safe to share OTP? What will you use it for?'',
       ''Can someone misuse my OTP if I share it?'']
     = Inr ''Why do you need my OTP? I've heard it's dangerous.''
   \<and> get_agent_reply ''Send the OTP'' []
        [''Is it safe to share OTP? What will you use it for?'',
         ''Why do you need my OTP? I've heard it's dangerous.'',
         ''Can someone misuse my OTP if I share it?'']
       = Inr ''Is it safe to share OTP? What will you use it for?''"
proof -
  have a: "select_reply ''Send the OTP''
             [''Is it safe to share OTP? What will you use it for?'',
              ''Can someone misuse my OTP if I share it?'']
           = ''Why do you need my OTP? I've heard it's dangerous.''"
    by code_simp
  have b: "select_reply ''Send the OTP''
             [''Is it safe to share OTP? What will you use it for?'',
              ''Why do you need my OTP? I've heard it's dangerous.'',
              ''Can someone misuse my OTP if I share it?'']
           = ''Is it safe to share OTP? What will you use it for?''"
    by code_simp
  show ?thesis
    using strategist_follows_specification[of "''Send the OTP''" "[]"] a b by simp
qed

subsection \<open>The score is never negative\<close>

lemma count_in_nonneg: "0 \<le> count_in ws s"
  by (simp add: count_in_def)

lemma nonneg_Let:
  "(\<And>x. x = a \<Longrightarrow> 0 \<le> snd (snd (f x))) \<Longrightarrow> 0 \<le> snd (snd (Let a f))"
  by simp

lemma nonneg_stage:
  assumes "0 \<le> (s::int)" and "0 \<le> n"
    and step: "\<And>s' r'. 0 \<le> s' \<Longrightarrow> 0 \<le> snd (snd (f s' r'))"
  shows "0 \<le> snd (snd (Let (if c then (s + n, r1) else (s, r2)) (case_prod f)))"
proof (cases c)
  case True
  from assms(1,2) have "0 \<le> s + n" by simp
  with True show ?thesis by (simp add: step)
next
  case False
  with assms(1) show ?thesis by (simp add: step)
qed

lemma escalation_fold_nonneg:
  "0 \<le> (s::int) \<Longrightarrow> 0 \<le> fst (fold (escalation_step msg) xs (s, r))"
  by (induction xs arbitrary: s r) (auto simp: escalation_step_def)

lemma nonneg_last:
  "0 \<le> (s::int) \<Longrightarrow> (\<And>s' r'. 0 \<le> s' \<Longrightarrow> 0 \<le> snd (snd (f s' r')))
     \<Longrightarrow> 0 \<le> snd (snd (Let (if c then fold (escalation_step msg) xs (s, r) else (s, r))
                              (case_prod f)))"
  using escalation_fold_nonneg[of s msg xs r]
  by (cases "fold (escalation_step msg) xs (s, r)") auto

lemma detect_scam_nonneg: "0 \<le> snd (snd (detect_scam txt hist))"
  unfolding detect_scam_def
  apply (rule nonneg_Let)
  apply (rule nonneg_Let)
  apply (rule nonneg_Let)
  apply (rule nonneg_Let)
  apply (rule nonneg_stage, simp, simp add: count_in_nonneg)
  apply (rule nonneg_Let)
  apply (rule nonneg_stage, simp, simp add: count_in_nonneg)
  apply (rule nonneg_Let)
  apply (rule nonneg_stage, simp, simp add: count_in_nonneg)
  apply (rule nonneg_Let)
  apply (rule nonneg_Let)
  apply (rule nonneg_stage, simp, simp add: count_in_nonneg)
  apply (rule nonneg_stage, simp, simp add: count_in_nonneg)
  apply (rule nonneg_stage, simp, simp)
  apply (rule nonneg_stage, simp, simp)
  apply (rule nonneg_Let)
  apply (rule nonneg_stage, simp, simp add: count_in_nonneg)
  apply (rule nonneg_Let)
  apply (rule nonneg_Let)
  apply (rule nonneg_Let)
  apply (rule nonneg_stage, simp, simp)
  apply (rule nonneg_last, simp)
  apply simp
  done

lemma turn_score_nonneg: "0 \<le> turn_score pl"
  by (simp add: turn_score_def detect_scam_nonneg)

subsection \<open>One turn\<close>

lemma pm_messages:
  "messages (session_of (process_message cfg s pl oc)) = messages s @ [message pl]"
  by (simp add: process_message_def Let_def split_beta split: sum.splits)

lemma pm_score:
  "scam_score (session_of (process_message cfg s pl oc)) = max (scam_score s) (turn_score pl)"
  by (simp add: process_message_def Let_def split_beta turn_score_def split: sum.splits)

lemma pm_ignored:
  "\<not> turn_is_scam pl \<Longrightarrow>
   process_message cfg s pl oc =
     (Inr \<lparr>status = ''ignored'', reply = None\<rparr>,
      s\<lparr>messages := messages s @ [message pl],
        scam_score := max (scam_score s) (turn_score pl)\<rparr>,
      [])"
  by (simp add: process_message_def Let_def split_beta turn_score_def turn_is_scam_def)

lemma pm_detected:
  "scam_detected (session_of (process_message cfg s pl oc)) = (scam_detected s \<or> turn_is_scam pl)"
  by (simp add: process_message_def Let_def split_beta turn_is_scam_def split: sum.splits)

lemma pm_details:
  "detection_details (session_of (process_message cfg s pl oc)) =
     (if \<not> scam_detected s \<and> turn_is_scam pl
      then Some (snapshot (Suc (length (messages s))) pl)
      else detection_details s)"
  by (simp add: process_message_def Let_def split_beta turn_is_scam_def snapshot_def
        turn_score_def turn_reasons_def split: sum.splits)

lemma pm_intelligence:
  "intelligence (session_of (process_message cfg s pl oc)) =
     (if turn_is_scam pl
      then merge_intelligence (intelligence s)
             (extract_intelligence (m_text (message pl))
                (conversationHistory pl @ [as_entry (message pl)]))
      else intelligence s)"
  by (simp add: process_message_def Let_def split_beta turn_is_scam_def split: sum.splits)



lemma pm_sent_iff:
  "sent_of (process_message cfg s pl oc) \<noteq> [] \<longleftrightarrow>
     (\<exists>r. result_of (process_message cfg s pl oc) = Inr \<lparr>status = ''success'', reply = Some r\<rparr>)
     \<and> \<not> engagement_concluded s
     \<and> MAX_MESSAGES_PER_SESSION cfg \<le> int (length (messages s)) + 1"
  by (auto simp add: process_message_def Let_def split_beta should_continue_engagement_def
        split: sum.splits)

lemma pm_success:
  "result_of (process_message cfg s pl oc) = Inr \<lparr>status = ''success'', reply = rp\<rparr> \<Longrightarrow>
     turn_is_scam pl
     \<and> (\<exists>r. rp = Some r \<and> generate_agent_reply (conversationHistory pl) = Inr r
            \<and> agent_replies (session_of (process_message cfg s pl oc)) = agent_replies s @ [r])"
  by (auto simp add: process_message_def Let_def split_beta turn_is_scam_def
        split: sum.splits if_splits)

lemma texts_of_snoc:
  "texts_of w (xs @ [e]) =
     (case texts_of w xs of
        Inl x \<Rightarrow> Inl x
      | Inr ts \<Rightarrow>
          if h_sender e = Some w
          then (case h_text e of None \<Rightarrow> Inl KeyError | Some t \<Rightarrow> Inr (ts @ [t]))
          else Inr ts)"
  by (induction xs) (auto split: sum.splits option.splits)

lemma notes_total:
  "texts_of ''scammer'' conv = Inr ts \<Longrightarrow> \<exists>n. generate_agent_notes conv i = Inr n"
  by (simp add: generate_agent_notes_def Let_def)

lemma pm_result_scam:
  assumes "turn_is_scam pl"
    and "generate_agent_reply (conversationHistory pl) = Inr r"
    and "texts_of ''scammer'' (conversationHistory pl) = Inr ts"
  shows "result_of (process_message cfg s pl oc) = Inr \<lparr>status = ''success'', reply = Some r\<rparr>"
proof -
  from assms(3) have "\<exists>ts'. texts_of ''scammer'' (conversationHistory pl @ [as_entry (message pl)]) = Inr ts'"
    by (simp add: texts_of_snoc as_entry_def)
  then obtain n where
    "generate_agent_notes (conversationHistory pl @ [as_entry (message pl)])
       (merge_intelligence (intelligence s)
          (extract_intelligence (m_text (message pl))
             (conversationHistory pl @ [as_entry (message pl)]))) = Inr n"
    using notes_total by blast
  with assms(1,2) show ?thesis
    by (simp add: process_message_def Let_def split_beta turn_is_scam_def split: sum.splits)
qed

subsection \<open>Sequences of turns\<close>

lemma run_snoc:
  "run cfg s (turns @ [(pl, oc)]) = session_of (process_message cfg (run cfg s turns) pl oc)"
  by (induction turns arbitrary: s) auto

lemma run_append: "run cfg s (turns @ later) = run cfg (run cfg s turns) later"
  by (induction turns arbitrary: s) auto

lemma run_messages:
  "messages (run cfg s turns) = messages s @ map (\<lambda>t. message (fst t)) turns"
  by (induction turns arbitrary: s) (auto simp: pm_messages)

lemma run_score_mono: "scam_score s \<le> scam_score (run cfg s turns)"
proof (induction turns arbitrary: s)
  case Nil
  show ?case by simp
next
  case (Cons t turns)
  obtain pl oc where t: "t = (pl, oc)" by (cases t)
  have "scam_score s \<le> scam_score (session_of (process_message cfg s pl oc))"
    by (simp add: pm_score)
  also have "\<dots> \<le> scam_score (run cfg (session_of (process_message cfg s pl oc)) turns)"
    by (rule Cons.IH)
  finally show ?case by (simp add: t)
qed

lemma run_score:
  "scam_score (run cfg s turns) = Max (set (scam_score s # map (\<lambda>t. turn_score (fst t)) turns))"
proof (induction turns arbitrary: s)
  case Nil
  show ?case by simp
next
  case (Cons t turns)
  obtain pl oc where t: "t = (pl, oc)" by (cases t)
  let ?S = "set (map (\<lambda>t. turn_score (fst t)) turns)"
  have "scam_score (run cfg s (t # turns))
          = Max (insert (max (scam_score s) (turn_score pl)) ?S)"
    by (simp add: t Cons.IH pm_score)
  also have "\<dots> = Max (insert (scam_score s) (insert (turn_score pl) ?S))"
    by (cases "?S = {}") (simp_all add: max.assoc)
  finally show ?case by (simp add: t)
qed

lemma run_detected_mono: "scam_detected s \<Longrightarrow> scam_detected (run cfg s turns)"
  by (induction turns arbitrary: s) (auto simp: pm_detected)

lemma run_details_frozen:
  "scam_detected s \<Longrightarrow> detection_details (run cfg s turns) = detection_details s"
proof (induction turns arbitrary: s)
  case Nil
  show ?case by simp
next
  case (Cons t turns)
  obtain pl oc where t: "t = (pl, oc)" by (cases t)
  let ?s' = "session_of (process_message cfg s pl oc)"
  from Cons.prems have "scam_detected ?s'" by (simp add: pm_detected)
  then have "detection_details (run cfg ?s' turns) = detection_details ?s'" by (rule Cons.IH)
  with Cons.prems show ?case by (simp add: t pm_details)
qed

lemma run_first_detection:
  "\<not> scam_detected s \<Longrightarrow> detection_details s = None \<Longrightarrow>
     detection_details (run cfg s turns) = first_detection (length (messages s)) (map fst turns)
     \<and> scam_detected (run cfg s turns)
         = (first_detection (length (messages s)) (map fst turns) \<noteq> None)"
proof (induction turns arbitrary: s)
  case Nil
  then show ?case by simp
next
  case (Cons t turns)
  obtain pl oc where t: "t = (pl, oc)" by (cases t)
  let ?s' = "session_of (process_message cfg s pl oc)"
  show ?case
  proof (cases "turn_is_scam pl")
    case True
    then have d: "scam_detected ?s'" by (simp add: pm_detected)
    from True Cons.prems
    have "detection_details ?s' = Some (snapshot (Suc (length (messages s))) pl)"
      by (simp add: pm_details)
    with d True show ?thesis
      by (simp add: t run_details_frozen run_detected_mono)
  next
    case False
    with Cons.prems have "\<not> scam_detected ?s'" and "detection_details ?s' = None"
      by (simp_all add: pm_detected pm_details)
    from Cons.IH[OF this] False show ?thesis
      by (simp add: t pm_messages)
  qed
qed

subsection \<open>Concrete scores used in the examples\<close>

lemma score_hi: "detect_scam ''hi'' [] = (False, [], 0)"
  by code_simp

lemma score_share_otp:
  "detect_scam ''share otp'' [] = (True, [''action requested'', ''sensitive info request''], 4)"
  by code_simp

lemma score_pin_password:
  "detect_scam ''pin and password now'' []
     = (True, [''sensitive info request'', ''urgency/threat tactics''], 8)"
  by code_simp

lemma types_share_otp: "get_scam_details ''share otp'' = [''credential theft'']"
  by code_simp

lemma score_multi_turn_first:
  "detect_scam multi_turn_first []
     = (True,
        [''financial context'', ''action requested'', ''external link detected'',
         ''malicious action request''],
        9)"
  by code_simp

lemma score_multi_turn_third:
  "detect_scam multi_turn_third
     [entry ''scammer'' multi_turn_first, entry ''scammer'' multi_turn_second]
     = (False, [''financial context'', ''action requested''], 2)"
  by code_simp

lemma reply_to_empty_history: "generate_agent_reply [] = Inr ''Why is my account being blocked?''"
  by (simp add: generate_agent_reply_def)

text \<open>
  C10.  Every message a turn processes is appended to \<open>messages\<close> and its score is folded
  into \<open>scam_score\<close>, whatever the turn returns, also for a message that is ignored.  So
  after any sequence of turns the session holds one more message for each of them, and a
  turn that answers with a reply dispatches exactly when the session is not concluded and
  the number of messages, ignored ones included, has reached the cap.
\<close>

theorem every_message_is_recorded:
  "messages (session_of (process_message cfg s pl oc)) = messages s @ [message pl]
   \<and> scam_score (session_of (process_message cfg s pl oc)) = max (scam_score s) (turn_score pl)
   \<and> (\<not> turn_is_scam pl \<longrightarrow>
         result_of (process_message cfg s pl oc) = Inr \<lparr>status = ''ignored'', reply = None\<rparr>)
   \<and> messages (run cfg s turns) = messages s @ map (\<lambda>t. message (fst t)) turns
   \<and> (sent_of (process_message cfg s pl oc) \<noteq> [] \<longleftrightarrow>
         (\<exists>r. result_of (process_message cfg s pl oc)
                 = Inr \<lparr>status = ''success'', reply = Some r\<rparr>)
         \<and> \<not> engagement_concluded s
         \<and> MAX_MESSAGES_PER_SESSION cfg \<le> int (length (messages s)) + 1)"
  using pm_sent_iff[of cfg s pl oc]
  by (simp add: pm_messages pm_score pm_ignored run_messages)

theorem every_message_is_recorded_witness:
  "result_of (process_message (default_settings\<lparr>MAX_MESSAGES_PER_SESSION := 2\<rparr>)
                (initialize_session 0) (scammer_says ''hi'' []) (Responded 200))
     = Inr \<lparr>status = ''ignored'', reply = None\<rparr>
   \<and> length (messages (run (default_settings\<lparr>MAX_MESSAGES_PER_SESSION := 2\<rparr>)
                         (initialize_session 0) [(scammer_says ''hi'' [], Responded 200)])) = 1
   \<and> sent_of (process_message (default_settings\<lparr>MAX_MESSAGES_PER_SESSION := 2\<rparr>)
                (run (default_settings\<lparr>MAX_MESSAGES_PER_SESSION := 2\<rparr>)
                   (initialize_session 0) [(scammer_says ''hi'' [], Responded 200)])
                (scammer_says ''share otp'' []) (Responded 200)) \<noteq> []"
proof -
  let ?cfg = "default_settings\<lparr>MAX_MESSAGES_PER_SESSION := 2\<rparr>"
  let ?s1 = "run ?cfg (initialize_session 0) [(scammer_says ''hi'' [], Responded 200)]"
  have hi: "\<not> turn_is_scam (scammer_says ''hi'' [])"
    by (simp add: turn_is_scam_def scammer_says_def score_hi)
  have otp: "turn_is_scam (scammer_says ''share otp'' [])"
    by (simp add: turn_is_scam_def scammer_says_def score_share_otp)
  have r: "result_of (process_message ?cfg ?s1 (scammer_says ''share otp'' []) (Responded 200))
             = Inr \<lparr>status = ''success'', reply = Some ''Why is my account being blocked?''\<rparr>"
    by (rule pm_result_scam[OF otp, where ts = "[]"])
       (simp_all add: scammer_says_def reply_to_empty_history)
  have c: "\<not> engagement_concluded ?s1" and l: "length (messages ?s1) = 1"
    using hi by (simp_all add: pm_ignored initialize_session_def)
  from every_message_is_recorded[of ?cfg "initialize_session 0" "scammer_says ''hi'' []" "Responded 200" "[]"]
    hi
  have first: "result_of (process_message ?cfg (initialize_session 0) (scammer_says ''hi'' [])
                 (Responded 200)) = Inr \<lparr>status = ''ignored'', reply = None\<rparr>"
    by simp
  from every_message_is_recorded[of ?cfg ?s1 "scammer_says ''share otp'' []" "Responded 200" "[]"]
    r c l
  have "sent_of (process_message ?cfg ?s1 (scammer_says ''share otp'' []) (Responded 200)) \<noteq> []"
    by (simp add: default_settings_def)
  with first l show ?thesis by simp
qed

subsection \<open>Merging intelligence\<close>

lemma merge_values_set: "set (merge_values old new) = set old \<union> set new"
  by (simp add: merge_values_def)

lemma lookup_merge:
  "set (lookup (merge_intelligence a b) k) = set (lookup a k) \<union> set (lookup b k)"
  by (cases k) (simp_all add: merge_intelligence_def merge_values_set)

lemma lookup_merge_distinct: "distinct (lookup (merge_intelligence a b) k)"
  by (cases k) (simp_all add: merge_intelligence_def merge_values_def)

text \<open>
  C9.  Under every key the merge is the union of the two sets of entries.  Hence merging
  the same bundle a second time changes no set, no entry that was accumulated before is
  lost (also across a whole turn of the orchestrator), and the merged list holds no entry
  twice.
\<close>

theorem merge_is_idempotent_and_growing:
  "set (lookup (merge_intelligence (merge_intelligence acc new) new) k)
     = set (lookup (merge_intelligence acc new) k)
   \<and> set (lookup (merge_intelligence acc new) k) = set (lookup acc k) \<union> set (lookup new k)
   \<and> set (lookup acc k) \<subseteq> set (lookup (merge_intelligence acc new) k)
   \<and> distinct (lookup (merge_intelligence acc new) k)
   \<and> set (lookup (intelligence s) k)
       \<subseteq> set (lookup (intelligence (session_of (process_message cfg s pl oc))) k)"
  by (auto simp add: lookup_merge lookup_merge_distinct pm_intelligence)

text \<open>
  C3.  Along every sequence of turns of a session: \<open>scam_score\<close> is the largest score seen
  (the scorer never gives a negative score, so from a new session this is the maximum of
  the scores of the messages) and never decreases; \<open>scam_detected\<close> becomes true at the
  first message whose score is at least 4 and stays true; the detection details are
  written at that message, with its score, reasons, index and scam types, and are the same
  after any later turn.
\<close>

theorem score_ceiling_and_frozen_detection:
  "scam_score (run cfg s turns) = Max (set (scam_score s # map (\<lambda>t. turn_score (fst t)) turns))
   \<and> (turns \<noteq> [] \<longrightarrow>
         scam_score (run cfg (initialize_session now) turns)
           = Max (set (map (\<lambda>t. turn_score (fst t)) turns)))
   \<and> scam_score s \<le> scam_score (session_of (process_message cfg s pl oc))
   \<and> scam_score (run cfg s turns) \<le> scam_score (run cfg s (turns @ later))
   \<and> turn_is_scam pl = (4 \<le> turn_score pl)
   \<and> scam_detected (session_of (process_message cfg s pl oc))
       = (scam_detected s \<or> turn_is_scam pl)
   \<and> (scam_detected (run cfg s turns) \<longrightarrow> scam_detected (run cfg s (turns @ later)))
   \<and> (scam_detected s \<longrightarrow> detection_details (run cfg s turns) = detection_details s)
   \<and> (\<not> scam_detected s \<and> turn_is_scam pl \<longrightarrow>
         detection_details (session_of (process_message cfg s pl oc))
           = Some (snapshot (Suc (length (messages s))) pl))
   \<and> detection_details (run cfg (initialize_session now) turns)
       = first_detection 0 (map fst turns)
   \<and> scam_detected (run cfg (initialize_session now) turns)
       = (first_detection 0 (map fst turns) \<noteq> None)"
proof -
  have a: "scam_score (run cfg s turns)
             = Max (set (scam_score s # map (\<lambda>t. turn_score (fst t)) turns))"
    by (rule run_score)
  have b: "turns \<noteq> [] \<longrightarrow>
             scam_score (run cfg (initialize_session now) turns)
               = Max (set (map (\<lambda>t. turn_score (fst t)) turns))"
  proof
    assume ne: "turns \<noteq> []"
    let ?S = "set (map (\<lambda>t. turn_score (fst t)) turns)"
    from ne have fin: "finite ?S" and nonempty: "?S \<noteq> {}" by simp_all
    from ne obtain t where "t \<in> set turns" by (cases turns) auto
    then have x: "turn_score (fst t) \<in> ?S" by simp
    have "0 \<le> turn_score (fst t)" by (rule turn_score_nonneg)
    also from fin x have "turn_score (fst t) \<le> Max ?S" by (rule Max_ge)
    finally have "0 \<le> Max ?S" .
    with fin nonempty have "Max (insert 0 ?S) = Max ?S" by (simp add: max_def)
    then show "scam_score (run cfg (initialize_session now) turns) = Max ?S"
      by (simp add: run_score initialize_session_def)
  qed
  have c: "scam_score s \<le> scam_score (session_of (process_message cfg s pl oc))"
    by (simp add: pm_score)
  have d: "scam_score (run cfg s turns) \<le> scam_score (run cfg s (turns @ later))"
    by (simp add: run_append run_score_mono)
  have e: "scam_detected (run cfg s turns) \<longrightarrow> scam_detected (run cfg s (turns @ later))"
    by (simp add: run_append run_detected_mono)
  have f: "scam_detected s \<longrightarrow> detection_details (run cfg s turns) = detection_details s"
    by (simp add: run_details_frozen)
  have g: "detection_details (run cfg (initialize_session now) turns)
             = first_detection 0 (map fst turns)
           \<and> scam_detected (run cfg (initialize_session now) turns)
             = (first_detection 0 (map fst turns) \<noteq> None)"
    using run_first_detection[of "initialize_session now" cfg turns]
    by (simp add: initialize_session_def)
  from a b c d e f g show ?thesis
    by (simp add: turn_is_scam_iff pm_detected pm_details)
qed

theorem score_ceiling_and_frozen_detection_witness:
  "scam_score (run default_settings (initialize_session 0)
      [(scammer_says ''hi'' [], Responded 200),
       (scammer_says ''share otp'' [], Responded 200),
       (scammer_says ''pin and password now'' [], Responded 200)]) = 8
   \<and> scam_detected (run default_settings (initialize_session 0)
      [(scammer_says ''hi'' [], Responded 200),
       (scammer_says ''share otp'' [], Responded 200),
       (scammer_says ''pin and password now'' [], Responded 200)])
   \<and> detection_details (run default_settings (initialize_session 0)
      [(scammer_says ''hi'' [], Responded 200),
       (scammer_says ''share otp'' [], Responded 200),
       (scammer_says ''pin and password now'' [], Responded 200)])
     = Some \<lparr>d_score = 4, d_reasons = [''action requested'', ''sensitive info request''],
             d_message_index = 2, d_scam_types = [''credential theft'']\<rparr>"
proof -
  let ?turns = "[(scammer_says ''hi'' [], Responded 200),
                 (scammer_says ''share otp'' [], Responded 200),
                 (scammer_says ''pin and password now'' [], Responded 200)]"
  have scores: "map (\<lambda>t. turn_score (fst t)) ?turns = [0, 4, 8]"
    by (simp add: turn_score_def scammer_says_def score_hi score_share_otp score_pin_password)
  have first: "first_detection 0 (map fst ?turns)
                 = Some \<lparr>d_score = 4, d_reasons = [''action requested'', ''sensitive info request''],
                         d_message_index = 2, d_scam_types = [''credential theft'']\<rparr>"
    by (simp add: turn_is_scam_def turn_score_def turn_reasons_def snapshot_def scammer_says_def
          score_hi score_share_otp types_share_otp)
  from score_ceiling_and_frozen_detection
         [of default_settings "initialize_session 0" ?turns 0 "scammer_says ''hi'' []"
             "Responded 200" "[]"]
  have "scam_score (run default_settings (initialize_session 0) ?turns)
          = Max (set (map (\<lambda>t. turn_score (fst t)) ?turns))"
    and "detection_details (run default_settings (initialize_session 0) ?turns)
          = first_detection 0 (map fst ?turns)"
    and "scam_detected (run default_settings (initialize_session 0) ?turns)
          = (first_detection 0 (map fst ?turns) \<noteq> None)"
    by simp_all
  then show ?thesis
    unfolding scores first by simp
qed

text \<open>
  C1.  At the input of the repository's own multi-turn test the code does not do what
  the claim says: the first message of the test is scored 9 and puts the session into the
  detected state, where it still is after the second message; the third message, sent
  into that session, is scored 2, and the turn answers \<open>ignored\<close> without a reply, without
  a dispatch and without touching \<open>agent_replies\<close>.
\<close>

theorem detected_session_ignores_low_score_message:
  "scam_detected (run default_settings (initialize_session 0) multi_turn_opening)
   \<and> turn_score multi_turn_last = 2
   \<and> process_message default_settings
        (run default_settings (initialize_session 0) multi_turn_opening)
        multi_turn_last (Responded 200)
      = (Inr \<lparr>status = ''ignored'', reply = None\<rparr>,
         (run default_settings (initialize_session 0) multi_turn_opening)
           \<lparr>messages :=
              messages (run default_settings (initialize_session 0) multi_turn_opening)
                @ [message multi_turn_last],
            scam_score :=
              max (scam_score (run default_settings (initialize_session 0) multi_turn_opening))
                2\<rparr>,
         [])"
proof -
  have one: "turn_is_scam (scammer_says multi_turn_first [])"
    by (simp add: turn_is_scam_def scammer_says_def score_multi_turn_first)
  then have "scam_detected (session_of (process_message default_settings (initialize_session 0)
               (scammer_says multi_turn_first []) (Responded 200)))"
    by (simp add: pm_detected)
  then have detected: "scam_detected (run default_settings (initialize_session 0) multi_turn_opening)"
    by (simp add: multi_turn_opening_def pm_detected)
  have three: "\<not> turn_is_scam multi_turn_last" and two: "turn_score multi_turn_last = 2"
    by (simp_all add: turn_is_scam_def turn_score_def multi_turn_last_def scammer_says_def
          score_multi_turn_third)
  from pm_ignored[OF three] detected two show ?thesis
    by simp
qed

lemma score_otp_now:
  "fst (detect_scam ''Share your OTP now'' [])
   \<and> fst (detect_scam ''Share your OTP now'' [entry ''scammer'' ''Click this link''])"
  by code_simp

lemma reply_to_link_history:
  "generate_agent_reply [entry ''scammer'' ''Click this link'']
     = Inr ''Can you explain what this link is for?''"
  by code_simp

lemma strategist_on_otp:
  "get_agent_reply ''Share your OTP now'' [] []
     = Inr ''Is it safe to share OTP? What will you use it for?''"
  by code_simp

text \<open>
  C4.  At these inputs the code does not do what the claim says.  A new session receives
  the message "Share your OTP now".  With an empty history the reply is the fixed opening
  line; with a history that holds an earlier message of the scammer about a link the
  reply is a template of the category \<open>link\<close>.  The message and the session's own
  \<open>agent_replies\<close> are the same in both turns, and the strategist, asked about this
  message with these replies as its memory, picks a template of the category \<open>otp\<close>.
\<close>

theorem reply_ignores_latest_message:
  "result_of (process_message default_settings (initialize_session 0)
      (scammer_says ''Share your OTP now'' []) (Responded 200))
     = Inr \<lparr>status = ''success'', reply = Some ''Why is my account being blocked?''\<rparr>
   \<and> result_of (process_message default_settings (initialize_session 0)
        (scammer_says ''Share your OTP now'' [entry ''scammer'' ''Click this link''])
        (Responded 200))
       = Inr \<lparr>status = ''success'', reply = Some ''Can you explain what this link is for?''\<rparr>
   \<and> get_agent_reply ''Share your OTP now'' [] (agent_replies (initialize_session 0))
       = Inr ''Is it safe to share OTP? What will you use it for?''"
proof -
  have a: "result_of (process_message default_settings (initialize_session 0)
             (scammer_says ''Share your OTP now'' []) (Responded 200))
           = Inr \<lparr>status = ''success'', reply = Some ''Why is my account being blocked?''\<rparr>"
    by (rule pm_result_scam[where ts = "[]"])
       (simp_all add: turn_is_scam_def scammer_says_def score_otp_now reply_to_empty_history)
  have b: "result_of (process_message default_settings (initialize_session 0)
             (scammer_says ''Share your OTP now'' [entry ''scammer'' ''Click this link''])
             (Responded 200))
           = Inr \<lparr>status = ''success'', reply = Some ''Can you explain what this link is for?''\<rparr>"
  proof (rule pm_result_scam[where ts = "[''Click this link'']"])
    show "turn_is_scam (scammer_says ''Share your OTP now'' [entry ''scammer'' ''Click this link''])"
      by (simp add: turn_is_scam_def scammer_says_def score_otp_now)
    show "generate_agent_reply
            (conversationHistory
               (scammer_says ''Share your OTP now'' [entry ''scammer'' ''Click this link'']))
          = Inr ''Can you explain what this link is for?''"
      by (simp add: scammer_says_def reply_to_link_history)
    show "texts_of ''scammer''
            (conversationHistory
               (scammer_says ''Share your OTP now'' [entry ''scammer'' ''Click this link'']))
          = Inr [''Click this link'']"
      by (simp add: scammer_says_def entry_def)
  qed
  from a b show ?thesis
    by (simp add: initialize_session_def strategist_on_otp)
qed

subsection \<open>Character classes\<close>







subsection \<open>The matches of the bank account pattern\<close>













subsection \<open>The bank accounts of the extractor\<close>










text \<open>
  C6.  At this input the code does not do what the claim says.  The text holds an address
  of a trusted provider and no suspicious keyword.  Called with the text alone, the
  extractor drops the address; called as the orchestrator calls it, with a conversation
  that ends with the same message, it reports the address, because the pass over the
  conversation adds every address without the filter.
\<close>

theorem trusted_email_kept_without_suspicion:
  "emailAddresses (extract_intelligence ''mail me at Bob@gmail.com''
      [entry ''scammer'' ''mail me at Bob@gmail.com'']) = [''bob@gmail.com'']
   \<and> any_in TRUSTED_DOMAINS ''bob@gmail.com''
   \<and> \<not> any_in SUSPICIOUS_KEYWORDS (lower ''mail me at Bob@gmail.com'')
   \<and> emailAddresses (extract_intelligence ''mail me at Bob@gmail.com'' []) = []"
  by code_simp

theorem trusted_email_kept_without_suspicion_witness:
  "''bob@gmail.com'' \<in> set (emailAddresses (extract_intelligence ''mail me at Bob@gmail.com''
      [entry ''scammer'' ''mail me at Bob@gmail.com'']))"
  using trusted_email_kept_without_suspicion by simp

subsection \<open>Dispatches\<close>







lemma run_messages_length: "length (messages s) \<le> length (messages (run cfg s turns))"
  by (simp add: run_messages)





subsection \<open>The request handler\<close>

text \<open>
  A request that fails authentication changes nothing.  An authorized request is one turn
  of \<open>process_message\<close> on the session that the registry holds for the identifier after
  the sweep (a new one if there is none), and the session it leaves is stored back, also
  when the turn ends in an exception.
\<close>

lemma analyze_message_unauthorized:
  "authenticate_request cfg key = Inl e
     \<Longrightarrow> analyze_message cfg now store key pl oc = (Inl e, store, [])"
  by (simp add: analyze_message_def)

lemma analyze_message_authorized:
  "authenticate_request cfg key = Inr ok \<Longrightarrow>
   analyze_message cfg now store key pl oc =
     (let swept = cleanup_old_sessions cfg now store;
          r = process_message cfg (get_or_create_session now swept (sessionId pl)) pl oc
      in (case result_of r of
            Inl e \<Rightarrow> Inl HTTP_500_INTERNAL_SERVER_ERROR
          | Inr answer \<Rightarrow> Inr answer,
          swept(sessionId pl \<mapsto> session_of r),
          sent_of r))"
  by (simp add: analyze_message_def Let_def split_beta split: sum.splits)

end
